theory Spec2Isabelle
  imports
    Main
    "HOL-Library.Word"
    "HOL-Library.Finite_Map"
    "HOL-Library.Char_ord"
    "HOL-Library.List_Lexorder"
begin

section \<open>Data model of \<^verbatim>\<open>main.go\<close>\<close>

text \<open>
  Go's \<^verbatim>\<open>int\<close> is a 64-bit machine integer on the platforms the program is built for.
  A \<^verbatim>\<open>float64\<close> is only ever copied from the feed into the store and into a message,
  so it is kept as its 64-bit pattern.  Instants of time (the value of SQL \<^verbatim>\<open>NOW()\<close>, a parsed
  \<^verbatim>\<open>time.Time\<close>) are integers on some fixed time line.
\<close>

type_synonym go_int = "64 word"
type_synonym float64 = "64 word"
type_synonym instant = int

text \<open>\<^verbatim>\<open>type ClearedIncident struct\<close>: just enough for a cleared notification.\<close>

record ClearedIncident =
  ID :: go_int
  Road :: string
  Location :: string
  City :: string

text \<open>\<^verbatim>\<open>type Incident struct\<close>: one record of the NCDOT feed, field by field.\<close>

record Incident =
  ID :: go_int
  Latitude :: float64
  Longitude :: float64
  CommonName :: string
  Reason :: string
  Condition :: string
  IncidentType :: string
  Severity :: go_int
  Direction :: string
  Location :: string
  CountyID :: go_int
  CountyName :: string
  City :: string
  StartTime :: string
  EndTime :: string
  LastUpdate :: string
  Road :: string
  RouteID :: go_int
  LanesClosed :: go_int
  LanesTotal :: go_int
  Detour :: string
  CrossStreetPrefix :: string
  CrossStreetNumber :: go_int
  CrossStreetSuffix :: string
  CrossStreetCommonName :: string
  Event :: string
  CreatedFromConcurrent :: bool
  MovableConstruction :: string
  WorkZoneSpeedLimit :: go_int

text \<open>
  One row of the table \<^verbatim>\<open>ncdot_incidents\<close>, with the columns the two SQL statements of
  \<^verbatim>\<open>upsertIncident\<close> and \<^verbatim>\<open>clearOldCrashes\<close> name (the column \<^verbatim>\<open>id\<close> is \<open>row_id\<close> here).
  \<^verbatim>\<open>cleared_time\<close> is nullable: \<open>None\<close> is SQL \<^verbatim>\<open>NULL\<close>.
\<close>

record ncdot_row =
  row_id :: go_int
  latitude :: float64
  longitude :: float64
  common_name :: string
  reason :: string
  condition :: string
  incident_type :: string
  severity :: go_int
  direction :: string
  location :: string
  county_id :: go_int
  county_name :: string
  city :: string
  start_time :: string
  end_time :: string
  last_update :: string
  road :: string
  route_id :: go_int
  lanes_closed :: go_int
  lanes_total :: go_int
  detour :: string
  cross_street_prefix :: string
  cross_street_number :: go_int
  cross_street_suffix :: string
  cross_street_common_name :: string
  event :: string
  created_from_concurrent :: bool
  movable_construction :: string
  work_zone_speed_limit :: go_int
  status :: string
  cleared_time :: "instant option"

text \<open>
  The table is the list of its rows.  \<^verbatim>\<open>ON CONFLICT (id)\<close> needs a unique index on
  \<^verbatim>\<open>id\<close>, so a table the program can run against has pairwise different identifiers.
\<close>

type_synonym incident_table = "ncdot_row list"

definition unique_ids :: "incident_table \<Rightarrow> bool" where
  "unique_ids rows = distinct (map row_id rows)"

text \<open>
  A \<^verbatim>\<open>map[int]bool\<close>: a finite map; reading a missing key gives the zero value \<^verbatim>\<open>false\<close>.
\<close>

type_synonym id_map = "(go_int, bool) fmap"

definition go_lookup :: "id_map \<Rightarrow> go_int \<Rightarrow> bool" where
  "go_lookup m k = (case fmlookup m k of None \<Rightarrow> False | Some b \<Rightarrow> b)"

datatype error = DbError | IoError | JsonError

text \<open>
  The calls the program issues to its collaborators (store, webhook, ledger file), in the
  order it issues them.  A call is recorded when it is made, whatever its outcome.
\<close>

datatype call =
    Upsert Incident
  | SendToDiscord Incident string
  | QueryActive
  | MarkCleared go_int
  | SendCleared ClearedIncident
  | WriteLedger string

text \<open>What persists between two runs, and the calls issued so far.\<close>

record world =
  store :: incident_table
  ledger_file :: "string option"
  trace :: "call list"

text \<open>
  What the collaborators answer during one run.  A loop's \<open>n\<close>-th iteration (from 0) asks
  the oracle at \<open>n\<close>, so that every call may fail on its own.
\<close>

datatype feed_outcome = FetchError | BodyReadError | DecodeError | Snapshot "Incident list"

datatype write_outcome = WriteOk | WriteError "string option"

record env =
  db_open_fails :: bool
  db_ping_fails :: bool
  ledger_read_fails :: bool
  feed :: feed_outcome
  upsert_fails :: "nat \<Rightarrow> bool"
  tz_load_fails :: "nat \<Rightarrow> bool"
  parse_rfc3339 :: "string \<Rightarrow> instant option"
  format_eastern :: "instant \<Rightarrow> string"
  query_fails :: bool
  scan_fails :: "nat \<Rightarrow> bool"
  clear_fails :: "nat \<Rightarrow> bool"
  db_now :: "nat \<Rightarrow> instant"
  ledger_write :: write_outcome

section \<open>The incident store\<close>

text \<open>The \<^verbatim>\<open>VALUES ($1, ..., $29, 'active', NULL)\<close> row of \<^verbatim>\<open>upsertIncident\<close>.\<close>

definition insert_values :: "Incident \<Rightarrow> ncdot_row" where
  "insert_values incident =
     \<lparr> row_id = Incident.ID incident,
       latitude = Latitude incident,
       longitude = Longitude incident,
       common_name = CommonName incident,
       reason = Reason incident,
       condition = Condition incident,
       incident_type = IncidentType incident,
       severity = Severity incident,
       direction = Direction incident,
       location = Incident.Location incident,
       county_id = CountyID incident,
       county_name = CountyName incident,
       city = Incident.City incident,
       start_time = StartTime incident,
       end_time = EndTime incident,
       last_update = LastUpdate incident,
       road = Incident.Road incident,
       route_id = RouteID incident,
       lanes_closed = LanesClosed incident,
       lanes_total = LanesTotal incident,
       detour = Detour incident,
       cross_street_prefix = CrossStreetPrefix incident,
       cross_street_number = CrossStreetNumber incident,
       cross_street_suffix = CrossStreetSuffix incident,
       cross_street_common_name = CrossStreetCommonName incident,
       event = Event incident,
       created_from_concurrent = CreatedFromConcurrent incident,
       movable_construction = MovableConstruction incident,
       work_zone_speed_limit = WorkZoneSpeedLimit incident,
       status = ''active'',
       cleared_time = None \<rparr>"

text \<open>
  \<^verbatim>\<open>ON CONFLICT (id) DO UPDATE SET ...\<close>: the stored row \<open>r\<close> with the twelve assignments
  applied, \<^verbatim>\<open>EXCLUDED\<close> being the row proposed for insertion.
\<close>

definition do_update_set :: "ncdot_row \<Rightarrow> ncdot_row \<Rightarrow> ncdot_row" where
  "do_update_set excluded r =
     r \<lparr> latitude := latitude excluded,
         longitude := longitude excluded,
         reason := reason excluded,
         condition := condition excluded,
         incident_type := incident_type excluded,
         severity := severity excluded,
         end_time := end_time excluded,
         last_update := last_update excluded,
         lanes_closed := lanes_closed excluded,
         detour := detour excluded,
         status := ''active'',
         cleared_time := None \<rparr>"

definition upsert_sql :: "Incident \<Rightarrow> incident_table \<Rightarrow> incident_table" where
  "upsert_sql incident rows =
     (let excluded = insert_values incident in
      if list_ex (\<lambda>r. row_id r = row_id excluded) rows
      then map (\<lambda>r. if row_id r = row_id excluded then do_update_set excluded r else r) rows
      else rows @ [excluded])"

text \<open>
  \<^verbatim>\<open>upsertIncident\<close>: one \<^verbatim>\<open>db.Exec\<close>; a statement that fails changes nothing.
\<close>

definition upsertIncident :: "bool \<Rightarrow> incident_table \<Rightarrow> Incident \<Rightarrow> error option \<times> incident_table" where
  "upsertIncident exec_fails db incident =
     (if exec_fails then (Some DbError, db) else (None, upsert_sql incident db))"

text \<open>
  \<^verbatim>\<open>SELECT id, road, location, city FROM ncdot_incidents WHERE status = 'active' AND
  incident_type = 'Vehicle Crash'\<close>, the rows in table order.
\<close>

definition select_active_crashes :: "incident_table \<Rightarrow> ClearedIncident list" where
  "select_active_crashes rows =
     map (\<lambda>r. \<lparr> ClearedIncident.ID = row_id r, ClearedIncident.Road = road r,
                ClearedIncident.Location = location r, ClearedIncident.City = city r \<rparr>)
         (filter (\<lambda>r. status r = ''active'' \<and> incident_type r = ''Vehicle Crash'') rows)"

text \<open>
  \<^verbatim>\<open>UPDATE ncdot_incidents SET status = 'cleared', cleared_time = NOW() WHERE id = $1\<close>.
\<close>

definition update_cleared :: "instant \<Rightarrow> go_int \<Rightarrow> incident_table \<Rightarrow> incident_table" where
  "update_cleared now k rows =
     map (\<lambda>r. if row_id r = k then r \<lparr> status := ''cleared'', cleared_time := Some now \<rparr> else r) rows"

section \<open>The webhook messages\<close>

definition newline :: char where
  "newline = CHR 0x0A"

text \<open>
  The text \<^verbatim>\<open>sendClearedNotificationToDiscord\<close> posts; the check mark is the three bytes
  of its UTF-8 encoding.
\<close>

definition check_mark :: string where
  "check_mark = [CHR 0xE2, CHR 0x9C, CHR 0x85]"

definition cleared_message :: "ClearedIncident \<Rightarrow> string" where
  "cleared_message incident =
     check_mark @ '' **Incident Cleared** '' @ check_mark @ [newline, newline] @
     ''**Road:** '' @ ClearedIncident.Road incident @ [newline] @
     ''**Location:** '' @ ClearedIncident.Location incident @ [newline] @
     ''**City:** '' @ ClearedIncident.City incident"

section \<open>The ledger file: \<^verbatim>\<open>encoding/json\<close> on a \<^verbatim>\<open>map[int]bool\<close>\<close>

text \<open>
  The ledger is a JSON object from decimal identifiers to booleans.  The two library calls
  are modelled on the bytes of the file: \<^verbatim>\<open>json.MarshalIndent(m, "", "  ")\<close> as it prints a
  \<^verbatim>\<open>map[int]bool\<close> (keys in the order of their strings, one member per line), and
  \<^verbatim>\<open>json.Unmarshal\<close> into a \<^verbatim>\<open>map[int]bool\<close> on objects whose keys are written without
  escape sequences; every other document is an error here.
\<close>

definition dquote :: char where
  "dquote = CHR 0x22"

definition digit_char :: "int \<Rightarrow> char" where
  "digit_char d = char_of (48 + d)"

definition is_digit :: "char \<Rightarrow> bool" where
  "is_digit c = (48 \<le> (of_char c :: int) \<and> (of_char c :: int) \<le> 57)"

definition digit_val :: "char \<Rightarrow> int" where
  "digit_val c = of_char c - 48"

function format_digits :: "int \<Rightarrow> string" where
  "format_digits n = (if n < 10 then [digit_char n] else format_digits (n div 10) @ [digit_char (n mod 10)])"
  by pat_completeness auto
termination
  by (relation "measure nat") auto

declare format_digits.simps [simp del]

text \<open>\<^verbatim>\<open>strconv.FormatInt(k, 10)\<close>.\<close>

definition format_int :: "go_int \<Rightarrow> string" where
  "format_int k = (if sint k < 0 then CHR ''-'' # format_digits (- sint k) else format_digits (sint k))"

definition digits_value :: "string \<Rightarrow> int" where
  "digits_value ds = foldl (\<lambda>a c. 10 * a + digit_val c) 0 ds"

text \<open>\<^verbatim>\<open>strconv.ParseInt(s, 10, 64)\<close>: an optional sign, then decimal digits, within 64 bits.\<close>

definition parse_int :: "string \<Rightarrow> go_int option" where
  "parse_int s =
     (let neg = (s \<noteq> [] \<and> hd s = CHR ''-'');
          ds = (if s \<noteq> [] \<and> (hd s = CHR ''-'' \<or> hd s = CHR ''+'') then tl s else s)
      in if ds = [] \<or> \<not> list_all is_digit ds then None
         else let n = digits_value ds; v = (if neg then - n else n)
              in if - (2 ^ 63) \<le> v \<and> v < 2 ^ 63 then Some (word_of_int v) else None)"

definition json_member :: "string \<times> bool \<Rightarrow> string" where
  "json_member kv =
     ''  '' @ [dquote] @ fst kv @ [dquote] @ '': '' @ (if snd kv then ''true'' else ''false'')"

fun json_members :: "(string \<times> bool) list \<Rightarrow> string" where
  "json_members [] = []"
| "json_members [kv] = json_member kv @ [newline]"
| "json_members (kv # kvs) = json_member kv @ '','' @ [newline] @ json_members kvs"

definition map_entries :: "id_map \<Rightarrow> (string \<times> bool) list" where
  "map_entries m =
     map (\<lambda>k. (format_int k, go_lookup m k)) (sort_key format_int (sorted_list_of_fset (fmdom m)))"

definition json_marshal_indent :: "id_map \<Rightarrow> string" where
  "json_marshal_indent m =
     (if map_entries m = [] then ''{}'' else ''{'' @ [newline] @ json_members (map_entries m) @ ''}'')"

definition is_ws :: "char \<Rightarrow> bool" where
  "is_ws c = (c = CHR '' '' \<or> c = CHR 0x09 \<or> c = CHR 0x0A \<or> c = CHR 0x0D)"

definition skip_ws :: "string \<Rightarrow> string" where
  "skip_ws s = dropWhile is_ws s"

definition plain_char :: "char \<Rightarrow> bool" where
  "plain_char c = (c \<noteq> dquote \<and> c \<noteq> CHR 0x5C \<and> 32 \<le> (of_char c :: int))"

text \<open>A member's value: \<^verbatim>\<open>null\<close> leaves the \<^verbatim>\<open>bool\<close> at its zero value.\<close>

definition json_literal :: "string \<Rightarrow> (bool \<times> string) option" where
  "json_literal s =
     (if take 4 s = ''true'' then Some (True, drop 4 s)
      else if take 5 s = ''false'' then Some (False, drop 5 s)
      else if take 4 s = ''null'' then Some (False, drop 4 s)
      else None)"

text \<open>The members of an object, up to and including its closing brace; a later key wins.\<close>

function json_object_members :: "string \<Rightarrow> id_map \<Rightarrow> error + id_map" where
  "json_object_members s m =
     (case skip_ws s of
        [] \<Rightarrow> Inl JsonError
      | q # s1 \<Rightarrow>
          if q \<noteq> dquote then Inl JsonError
          else (case dropWhile plain_char s1 of
                  [] \<Rightarrow> Inl JsonError
                | q' # s2 \<Rightarrow>
                    if q' \<noteq> dquote then Inl JsonError
                    else (case skip_ws s2 of
                            [] \<Rightarrow> Inl JsonError
                          | c # s3 \<Rightarrow>
                              if c \<noteq> CHR '':'' then Inl JsonError
                              else (case json_literal (skip_ws s3) of
                                      None \<Rightarrow> Inl JsonError
                                    | Some (v, s4) \<Rightarrow>
                                        (case parse_int (takeWhile plain_char s1) of
                                           None \<Rightarrow> Inl JsonError
                                         | Some k \<Rightarrow>
                                             (case skip_ws s4 of
                                                [] \<Rightarrow> Inl JsonError
                                              | d # s5 \<Rightarrow>
                                                  if d = CHR '','' then json_object_members s5 (fmupd k v m)
                                                  else if d = CHR ''}'' \<and> skip_ws s5 = [] then Inr (fmupd k v m)
                                                  else Inl JsonError))))))"
  by pat_completeness auto
termination
proof (relation "measure (\<lambda>(s, m). length s)", goal_cases)
  case 1
  show ?case by simp
next
  case (2 s m q s1 q' s2 c s3 lit v s4 k d s5)
  have ws: "length r < length t" if "skip_ws t = x # r" for t r and x :: char
    using that length_dropWhile_le [of is_ws t] by (simp add: skip_ws_def)
  have a: "length s1 < length s" using \<open>skip_ws s = q # s1\<close> by (rule ws)
  have b: "length s2 < length s1"
    using \<open>dropWhile plain_char s1 = q' # s2\<close> length_dropWhile_le [of plain_char s1] by simp
  have c: "length s3 < length s2" using \<open>skip_ws s2 = c # s3\<close> by (rule ws)
  have "json_literal (skip_ws s3) = Some (v, s4)" using 2 by simp
  then have d: "length s4 \<le> length (skip_ws s3)"
    by (auto simp: json_literal_def split: if_splits)
  have e: "length (skip_ws s3) \<le> length s3" by (simp add: skip_ws_def length_dropWhile_le)
  have f: "length s5 < length s4" using \<open>skip_ws s4 = d # s5\<close> by (rule ws)
  from a b c d e f show ?case by simp
qed

declare json_object_members.simps [simp del]

definition json_unmarshal :: "string \<Rightarrow> id_map \<Rightarrow> error + id_map" where
  "json_unmarshal strdata m =
     (case skip_ws strdata of
        [] \<Rightarrow> Inl JsonError
      | c # s1 \<Rightarrow>
          if c \<noteq> CHR ''{'' then Inl JsonError
          else (case skip_ws s1 of
                  [] \<Rightarrow> Inl JsonError
                | d # s2 \<Rightarrow>
                    if d = CHR ''}'' then (if skip_ws s2 = [] then Inr m else Inl JsonError)
                    else json_object_members s1 m))"

text \<open>
  \<^verbatim>\<open>loadSentIncidents\<close>.  The file is \<open>None\<close> when it does not exist; \<open>read_fails\<close> is any
  other failure of \<^verbatim>\<open>os.ReadFile\<close>.
\<close>

definition loadSentIncidents :: "bool \<Rightarrow> string option \<Rightarrow> error + id_map" where
  "loadSentIncidents read_fails file =
     (let sentIDs = fmempty in
      case file of
        None \<Rightarrow> Inr sentIDs
      | Some strdata \<Rightarrow>
          if read_fails then Inl IoError
          else if length strdata = 0 then Inr sentIDs
          else json_unmarshal strdata sentIDs)"

text \<open>
  \<^verbatim>\<open>saveSentIncidents\<close>: the error returned and the file afterwards.  A write that fails
  leaves what the environment says it leaves.
\<close>

definition saveSentIncidents :: "write_outcome \<Rightarrow> id_map \<Rightarrow> error option \<times> string option" where
  "saveSentIncidents outcome sentIDs =
     (case outcome of
        WriteOk \<Rightarrow> (None, Some (json_marshal_indent sentIDs))
      | WriteError left \<Rightarrow> (Some IoError, left))"

section \<open>One run\<close>

text \<open>The \<^verbatim>\<open>formattedTime\<close> of the processing loop, once the location is loaded.\<close>

definition formatted_time :: "env \<Rightarrow> Incident \<Rightarrow> string" where
  "formatted_time e crash =
     (case parse_rfc3339 e (StartTime crash) of
        None \<Rightarrow> StartTime crash
      | Some parsedTime \<Rightarrow> format_eastern e parsedTime)"

text \<open>
  The body of \<^verbatim>\<open>for _, crash := range vehicleCrashes\<close>, on the pair of \<^verbatim>\<open>sentIDs\<close> and
  the world.  An upsert that fails is only logged.
\<close>

definition crash_step :: "env \<Rightarrow> nat \<Rightarrow> Incident \<Rightarrow> id_map \<times> world \<Rightarrow> id_map \<times> world" where
  "crash_step e n crash st =
     (let sentIDs = fst st; w = snd st;
          w1 = w \<lparr> store := snd (upsertIncident (upsert_fails e n) (store w) crash),
                   trace := trace w @ [Upsert crash] \<rparr>
      in if \<not> go_lookup sentIDs (Incident.ID crash)
         then (if tz_load_fails e n then (sentIDs, w1)
               else (fmupd (Incident.ID crash) True sentIDs,
                     w1 \<lparr> trace := trace w1 @ [SendToDiscord crash (formatted_time e crash)] \<rparr>))
         else (sentIDs, w1))"

fun crash_loop :: "env \<Rightarrow> nat \<Rightarrow> Incident list \<Rightarrow> id_map \<times> world \<Rightarrow> id_map \<times> world" where
  "crash_loop e n [] st = st"
| "crash_loop e n (crash # crashes) st = crash_loop e (Suc n) crashes (crash_step e n crash st)"

text \<open>\<^verbatim>\<open>for rows.Next()\<close>: a row that does not scan is skipped.\<close>

fun scan_rows :: "(nat \<Rightarrow> bool) \<Rightarrow> nat \<Rightarrow> ClearedIncident list \<Rightarrow> ClearedIncident list" where
  "scan_rows bad n [] = []"
| "scan_rows bad n (r # rs) =
     (if bad n then scan_rows bad (Suc n) rs else r # scan_rows bad (Suc n) rs)"

text \<open>The body of \<^verbatim>\<open>for _, crash := range crashesToClear\<close>.\<close>

definition clear_step :: "env \<Rightarrow> nat \<Rightarrow> ClearedIncident \<Rightarrow> world \<Rightarrow> world" where
  "clear_step e n crash w =
     (let w1 = w \<lparr> trace := trace w @ [MarkCleared (ClearedIncident.ID crash)] \<rparr>
      in if clear_fails e n then w1
         else w1 \<lparr> store := update_cleared (db_now e n) (ClearedIncident.ID crash) (store w1),
                   trace := trace w1 @ [SendCleared crash] \<rparr>)"

fun clear_loop :: "env \<Rightarrow> nat \<Rightarrow> ClearedIncident list \<Rightarrow> world \<Rightarrow> world" where
  "clear_loop e n [] w = w"
| "clear_loop e n (crash # crashes) w = clear_loop e (Suc n) crashes (clear_step e n crash w)"

definition crashes_to_clear :: "env \<Rightarrow> id_map \<Rightarrow> incident_table \<Rightarrow> ClearedIncident list" where
  "crashes_to_clear e currentCrashIDs rows =
     (let activeDbCrashes = scan_rows (scan_fails e) 0 (select_active_crashes rows)
      in filter (\<lambda>dbCrash. \<not> go_lookup currentCrashIDs (ClearedIncident.ID dbCrash)) activeDbCrashes)"

definition clearOldCrashes :: "env \<Rightarrow> id_map \<Rightarrow> world \<Rightarrow> error option \<times> world" where
  "clearOldCrashes e currentCrashIDs w =
     (let w1 = w \<lparr> trace := trace w @ [QueryActive] \<rparr>
      in if query_fails e then (Some DbError, w1)
         else (None, clear_loop e 0 (crashes_to_clear e currentCrashIDs (store w1)) w1))"

definition vehicle_crashes :: "Incident list \<Rightarrow> Incident list" where
  "vehicle_crashes allIncidents =
     filter (\<lambda>incident. IncidentType incident = ''Vehicle Crash'') allIncidents"

definition current_crash_ids :: "Incident list \<Rightarrow> id_map" where
  "current_crash_ids vehicleCrashes =
     fold (\<lambda>crash m. fmupd (Incident.ID crash) True m) vehicleCrashes fmempty"

text \<open>
  \<^verbatim>\<open>main\<close>: the exit status and the world afterwards.  \<^verbatim>\<open>log.Fatalf\<close> exits with
  status 1 on the spot; log lines are not part of the model.
\<close>

definition main :: "env \<Rightarrow> world \<Rightarrow> int \<times> world" where
  "main e w =
     (if db_open_fails e then (1, w)
      else if db_ping_fails e then (1, w)
      else case loadSentIncidents (ledger_read_fails e) (ledger_file w) of
             Inl err \<Rightarrow> (1, w)
           | Inr sentIDs \<Rightarrow>
               (case feed e of
                  FetchError \<Rightarrow> (1, w)
                | BodyReadError \<Rightarrow> (1, w)
                | DecodeError \<Rightarrow> (1, w)
                | Snapshot allIncidents \<Rightarrow>
                    (let vehicleCrashes = vehicle_crashes allIncidents;
                         currentCrashIDs = current_crash_ids vehicleCrashes;
                         st = crash_loop e 0 vehicleCrashes (sentIDs, w);
                         w2 = snd (clearOldCrashes e currentCrashIDs (snd st));
                         saved = saveSentIncidents (ledger_write e) (fst st)
                     in (0, w2 \<lparr> ledger_file := snd saved,
                                  trace := trace w2 @ [WriteLedger (json_marshal_indent (fst st))] \<rparr>))))"

text \<open>Consecutive runs, each starting from what the one before left.\<close>

fun runs :: "env list \<Rightarrow> world \<Rightarrow> world" where
  "runs [] w = w"
| "runs (e # es) w = runs es (snd (main e w))"

section \<open>Observations on worlds and traces\<close>

text \<open>The rows of a table with a given identifier.\<close>

definition rows_with :: "go_int \<Rightarrow> incident_table \<Rightarrow> incident_table" where
  "rows_with k rows = filter (\<lambda>r. row_id r = k) rows"

text \<open>The calls issued between an earlier world and a later one.\<close>

definition new_calls :: "world \<Rightarrow> world \<Rightarrow> call list" where
  "new_calls w w' = drop (length (trace w)) (trace w')"

fun is_upsert_for :: "go_int \<Rightarrow> call \<Rightarrow> bool" where
  "is_upsert_for k (Upsert incident) = (Incident.ID incident = k)"
| "is_upsert_for k c = False"

fun is_alert_for :: "go_int \<Rightarrow> call \<Rightarrow> bool" where
  "is_alert_for k (SendToDiscord incident t) = (Incident.ID incident = k)"
| "is_alert_for k c = False"

fun is_clearing_for :: "go_int \<Rightarrow> call \<Rightarrow> bool" where
  "is_clearing_for k (MarkCleared k') = (k' = k)"
| "is_clearing_for k c = False"

fun is_cleared_notice_for :: "go_int \<Rightarrow> call \<Rightarrow> bool" where
  "is_cleared_notice_for k (SendCleared incident) = (ClearedIncident.ID incident = k)"
| "is_cleared_notice_for k c = False"

definition count_calls :: "(call \<Rightarrow> bool) \<Rightarrow> call list \<Rightarrow> nat" where
  "count_calls P calls = length (filter P calls)"

section \<open>Sample inputs\<close>

definition blank_incident :: Incident where
  "blank_incident =
     \<lparr> Incident.ID = 0, Latitude = 0, Longitude = 0, CommonName = [], Reason = [], Condition = [],
       IncidentType = [], Severity = 0, Direction = [], Incident.Location = [], CountyID = 92,
       CountyName = ''Wake'', Incident.City = [], StartTime = [], EndTime = [], LastUpdate = [],
       Incident.Road = [], RouteID = 0, LanesClosed = 0, LanesTotal = 0, Detour = [],
       CrossStreetPrefix = [], CrossStreetNumber = 0, CrossStreetSuffix = [],
       CrossStreetCommonName = [], Event = [], CreatedFromConcurrent = False,
       MovableConstruction = [], WorkZoneSpeedLimit = 0 \<rparr>"

definition sample_crash :: "go_int \<Rightarrow> Incident" where
  "sample_crash k =
     blank_incident \<lparr> Incident.ID := k, IncidentType := ''Vehicle Crash'', Incident.Road := ''I-40'',
       Incident.Location := ''Exit 289'', Incident.City := ''Raleigh'',
       StartTime := ''2025-09-13T14:05:00-04:00'' \<rparr>"

definition sample_closure :: "go_int \<Rightarrow> Incident" where
  "sample_closure k = (sample_crash k) \<lparr> IncidentType := ''Road Closure'' \<rparr>"

definition calm_env :: "feed_outcome \<Rightarrow> env" where
  "calm_env f =
     \<lparr> db_open_fails = False, db_ping_fails = False, ledger_read_fails = False, feed = f,
       upsert_fails = (\<lambda>n. False), tz_load_fails = (\<lambda>n. False),
       parse_rfc3339 = (\<lambda>s. None), format_eastern = (\<lambda>t. []),
       query_fails = False, scan_fails = (\<lambda>n. False), clear_fails = (\<lambda>n. False),
       db_now = (\<lambda>n. 1757786700), ledger_write = WriteOk \<rparr>"

definition sample_world :: "incident_table \<Rightarrow> id_map \<Rightarrow> world" where
  "sample_world rows sent =
     \<lparr> store = rows, ledger_file = Some (json_marshal_indent sent), trace = [] \<rparr>"

definition cleared_row :: "go_int \<Rightarrow> ncdot_row" where
  "cleared_row k =
     (insert_values (sample_crash k)) \<lparr> severity := 1, status := ''cleared'', cleared_time := Some 1757700000 \<rparr>"

section \<open>Fatal errors\<close>

text \<open>
  Claim C6.  When the feed cannot be fetched, its body cannot be read, or the payload does
  not decode, \<^verbatim>\<open>main\<close> exits with status 1 and the world is the one it started from: the
  same table, the same ledger file, and not one more call issued (so no upsert, no clearing
  update and no write of the ledger).
\<close>

theorem fatal_abort_leaves_world:
  assumes "feed e = FetchError \<or> feed e = BodyReadError \<or> feed e = DecodeError"
  shows "main e w = (1, w)"
  using assms by (auto simp: main_def split: sum.splits)

theorem fatal_abort_leaves_world_witness:
  "feed (calm_env FetchError) = FetchError \<and>
   main (calm_env FetchError) (sample_world [insert_values (sample_crash 1)] (fmupd 1 True fmempty)) =
     (1, sample_world [insert_values (sample_crash 1)] (fmupd 1 True fmempty))"
  using fatal_abort_leaves_world [of "calm_env FetchError"
      "sample_world [insert_values (sample_crash 1)] (fmupd 1 True fmempty)"]
  by (simp add: calm_env_def)

section \<open>The upsert statement\<close>

lemma upsert_sql_conflict:
  "list_ex (\<lambda>r. row_id r = Incident.ID incident) db \<Longrightarrow>
   upsert_sql incident db =
     map (\<lambda>r. if row_id r = Incident.ID incident then do_update_set (insert_values incident) r else r) db"
  by (simp add: upsert_sql_def Let_def insert_values_def)

lemma upsert_sql_fresh:
  "\<not> list_ex (\<lambda>r. row_id r = Incident.ID incident) db \<Longrightarrow>
   upsert_sql incident db = db @ [insert_values incident]"
  by (simp add: upsert_sql_def Let_def insert_values_def)

lemma row_id_insert_values: "row_id (insert_values incident) = Incident.ID incident"
  by (simp add: insert_values_def)

lemma row_id_do_update_set: "row_id (do_update_set x r) = row_id r"
  by (simp add: do_update_set_def)

lemma list_ex_row_id: "list_ex (\<lambda>r. row_id r = k) rows \<longleftrightarrow> k \<in> set (map row_id rows)"
  by (auto simp: list_ex_iff)

lemma map_row_id_conflict:
  "map row_id (map (\<lambda>r. if row_id r = k then do_update_set x r else r) db) = map row_id db"
  by (induction db) (simp_all add: row_id_do_update_set)

lemma map_row_id_upsert_conflict:
  "list_ex (\<lambda>r. row_id r = Incident.ID incident) db \<Longrightarrow>
   map row_id (upsert_sql incident db) = map row_id db"
  by (simp only: upsert_sql_conflict map_row_id_conflict)

text \<open>
  Claim C3.  An upsert that the store executes leaves a row with the incident's identifier,
  and every row with that identifier has status \<^verbatim>\<open>active\<close> and no cleared time, whatever
  they were before.  When a row with the identifier was already stored, no row is added;
  in that row latitude, longitude, reason, condition, incident type, severity, end time,
  last update, lanes closed and detour are the incident's, each of the other nineteen
  columns keeps its stored value, and the rows of other identifiers are untouched.  When
  no row had the identifier, the incident is appended as a new active row.
\<close>

theorem upsert_contract:
  "(let db' = snd (upsertIncident False db incident) in
      fst (upsertIncident False db incident) = None
    \<and> list_ex (\<lambda>r. row_id r = Incident.ID incident) db'
    \<and> list_all (\<lambda>r. row_id r \<noteq> Incident.ID incident \<or> (status r = ''active'' \<and> cleared_time r = None)) db'
    \<and> (if list_ex (\<lambda>r. row_id r = Incident.ID incident) db
        then length db' = length db
           \<and> (\<forall>j < length db.
                 if row_id (db ! j) = Incident.ID incident
                 then latitude (db' ! j) = Latitude incident
                    \<and> longitude (db' ! j) = Longitude incident
                    \<and> reason (db' ! j) = Reason incident
                    \<and> condition (db' ! j) = Condition incident
                    \<and> incident_type (db' ! j) = IncidentType incident
                    \<and> severity (db' ! j) = Severity incident
                    \<and> end_time (db' ! j) = EndTime incident
                    \<and> last_update (db' ! j) = LastUpdate incident
                    \<and> lanes_closed (db' ! j) = LanesClosed incident
                    \<and> detour (db' ! j) = Detour incident
                    \<and> status (db' ! j) = ''active''
                    \<and> cleared_time (db' ! j) = None
                    \<and> row_id (db' ! j) = row_id (db ! j)
                    \<and> common_name (db' ! j) = common_name (db ! j)
                    \<and> direction (db' ! j) = direction (db ! j)
                    \<and> location (db' ! j) = location (db ! j)
                    \<and> county_id (db' ! j) = county_id (db ! j)
                    \<and> county_name (db' ! j) = county_name (db ! j)
                    \<and> city (db' ! j) = city (db ! j)
                    \<and> start_time (db' ! j) = start_time (db ! j)
                    \<and> road (db' ! j) = road (db ! j)
                    \<and> route_id (db' ! j) = route_id (db ! j)
                    \<and> lanes_total (db' ! j) = lanes_total (db ! j)
                    \<and> cross_street_prefix (db' ! j) = cross_street_prefix (db ! j)
                    \<and> cross_street_number (db' ! j) = cross_street_number (db ! j)
                    \<and> cross_street_suffix (db' ! j) = cross_street_suffix (db ! j)
                    \<and> cross_street_common_name (db' ! j) = cross_street_common_name (db ! j)
                    \<and> event (db' ! j) = event (db ! j)
                    \<and> created_from_concurrent (db' ! j) = created_from_concurrent (db ! j)
                    \<and> movable_construction (db' ! j) = movable_construction (db ! j)
                    \<and> work_zone_speed_limit (db' ! j) = work_zone_speed_limit (db ! j)
                 else db' ! j = db ! j)
        else db' = db @ [insert_values incident]))"
proof (cases "list_ex (\<lambda>r. row_id r = Incident.ID incident) db")
  case True
  have a: "list_ex (\<lambda>r. row_id r = Incident.ID incident) (upsert_sql incident db)"
    using True by (simp only: list_ex_row_id map_row_id_upsert_conflict)
  have b: "list_all (\<lambda>r. row_id r \<noteq> Incident.ID incident \<or> (status r = ''active'' \<and> cleared_time r = None))
             (upsert_sql incident db)"
    using True by (auto simp: upsert_sql_conflict list_all_iff do_update_set_def)
  show ?thesis
    using True a b
    by (simp add: upsertIncident_def Let_def) (simp add: upsert_sql_conflict do_update_set_def insert_values_def)
next
  case False
  have a: "list_ex (\<lambda>r. row_id r = Incident.ID incident) (upsert_sql incident db)"
    using False by (simp add: upsert_sql_fresh row_id_insert_values)
  have b: "list_all (\<lambda>r. row_id r \<noteq> Incident.ID incident \<or> (status r = ''active'' \<and> cleared_time r = None))
             (upsert_sql incident db)"
    using False by (auto simp: upsert_sql_fresh list_all_iff list_ex_iff insert_values_def)
  show ?thesis
    using False a b by (simp add: upsertIncident_def Let_def upsert_sql_fresh)
qed

theorem upsert_contract_witness:
  "(let db' = snd (upsertIncident False [cleared_row 7, cleared_row 8] ((sample_crash 7) \<lparr> Severity := 3, Incident.Road := ''US-1'' \<rparr>)) in
      list_ex (\<lambda>r. row_id r = 7) [cleared_row 7, cleared_row 8]
    \<and> length db' = 2
    \<and> status (db' ! 0) = ''active'' \<and> cleared_time (db' ! 0) = None \<and> severity (db' ! 0) = 3
    \<and> road (db' ! 0) = ''I-40'' \<and> row_id (db' ! 0) = 7
    \<and> db' ! 1 = cleared_row 8)"
  using upsert_contract [of "[cleared_row 7, cleared_row 8]"
      "(sample_crash 7) \<lparr> Severity := 3, Incident.Road := ''US-1'' \<rparr>"]
  by (simp add: Let_def sample_crash_def cleared_row_def insert_values_def blank_incident_def
      All_less_Suc numeral_2_eq_2)

end
